theory Spec2Isabelle
  imports Complex_Main "HOL-Library.Multiset" "HOL-Library.Stream" "HOL-Library.Sublist"
begin

section \<open>Python values used by the password meter\<close>

subsection \<open>Strings\<close>

text \<open>
  A Python \<^verbatim>\<open>str\<close> is a sequence of Unicode code points, and \<^verbatim>\<open>len\<close> counts
  code points. A character is therefore a natural number and a string a list of them.
  \<open>str\<close> turns an ASCII literal of the theory into such a string.
\<close>

type_synonym pychar = nat
type_synonym pystr = "pychar list"

definition str :: "string \<Rightarrow> pystr" where
  "str s = map of_char s"

text \<open>
  The parts of the Python runtime that \<^verbatim>\<open>app.py\<close> calls but does not contain, and that
  depend on tables or on the rounding of the machine, are parameters of the model,
  collected in \<open>pylib\<close>:

  \<^item> \<open>unicode_lower\<close> is \<^verbatim>\<open>str.lower\<close> on a string that has a character beyond ASCII
    (it works on the whole string: one character may become two, and the lower case of
    a capital sigma depends on its position);
  \<^item> \<open>unicode_isupper\<close>, \<open>unicode_islower\<close>, \<open>unicode_isdigit\<close> are the character
    predicates on code points beyond ASCII;
  \<^item> \<open>float_round\<close> is the rounding of an exact result to a floating-point number,
    for results within the range of the floating-point numbers.

  On ASCII the case functions are written out below. Every theorem about the analyzer
  holds for all values of these parameters.
\<close>

record pylib =
  unicode_lower :: "pystr \<Rightarrow> pystr"
  unicode_isupper :: "pychar \<Rightarrow> bool"
  unicode_islower :: "pychar \<Rightarrow> bool"
  unicode_isdigit :: "pychar \<Rightarrow> bool"
  float_round :: "rat \<Rightarrow> rat"

definition is_ascii :: "pychar \<Rightarrow> bool" where
  "is_ascii c = (c < 128)"

definition isupper :: "pylib \<Rightarrow> pychar \<Rightarrow> bool" where
  "isupper L c = (if is_ascii c then 65 \<le> c \<and> c \<le> 90 else unicode_isupper L c)"

definition islower :: "pylib \<Rightarrow> pychar \<Rightarrow> bool" where
  "islower L c = (if is_ascii c then 97 \<le> c \<and> c \<le> 122 else unicode_islower L c)"

definition isdigit :: "pylib \<Rightarrow> pychar \<Rightarrow> bool" where
  "isdigit L c = (if is_ascii c then 48 \<le> c \<and> c \<le> 57 else unicode_isdigit L c)"

definition ascii_lower :: "pychar \<Rightarrow> pychar" where
  "ascii_lower c = (if 65 \<le> c \<and> c \<le> 90 then c + 32 else c)"

definition lower :: "pylib \<Rightarrow> pystr \<Rightarrow> pystr" where
  "lower L s = (if list_all is_ascii s then map ascii_lower s else unicode_lower L s)"

text \<open>The character pools of the \<^verbatim>\<open>string\<close> module, in the module's order.\<close>

definition ascii_uppercase :: pystr where
  "ascii_uppercase = str ''ABCDEFGHIJKLMNOPQRSTUVWXYZ''"

definition ascii_lowercase :: pystr where
  "ascii_lowercase = str ''abcdefghijklmnopqrstuvwxyz''"

definition ascii_letters :: pystr where
  "ascii_letters = ascii_lowercase @ ascii_uppercase"

definition digits :: pystr where
  "digits = str ''0123456789''"

text \<open>
  \<^verbatim>\<open>string.punctuation\<close> holds the 32 ASCII characters that are neither letters, digits,
  blank nor control characters, in code order: 33 to 47 (from the exclamation mark to the
  slash), 58 to 64 (colon to at sign), 91 to 96 (opening bracket to backquote) and
  123 to 126 (opening brace to tilde).
\<close>

definition punctuation :: pystr where
  "punctuation = [33..<48] @ [58..<65] @ [91..<97] @ [123..<127]"

text \<open>\<^verbatim>\<open>sep.join(xs)\<close>.\<close>

fun join :: "pystr \<Rightarrow> pystr list \<Rightarrow> pystr" where
  "join sep [] = []"
| "join sep [x] = x"
| "join sep (x # y # ys) = x @ sep @ join sep (y # ys)"

subsection \<open>Numbers\<close>

text \<open>
  A weight is a Python number: an integer of any size or a float. A float is a finite
  value, an infinity or NaN; the two zeros are one value here, since no operation below
  tells them apart (a division by either raises).
\<close>

datatype pyfloat = Finite rat | PosInf | NegInf | NaN

datatype pynum = PyInt int | PyFloat pyfloat

datatype py_error = ZeroDivisionError | OverflowError | IndexError

text \<open>
  The largest float is \<open>2 ^ 1024 - 2 ^ 971\<close>. An exact result whose magnitude reaches
  \<open>2 ^ 1024 - 2 ^ 970\<close>, half a step beyond it, rounds to an infinity, and an exact
  result of zero is the float zero; \<open>fl\<close> is the float that an exact result becomes.
\<close>

definition overflow_bound :: rat where
  "overflow_bound = 2 ^ 1024 - 2 ^ 970"

definition fl :: "pylib \<Rightarrow> rat \<Rightarrow> pyfloat" where
  "fl L r =
     (if overflow_bound \<le> r then PosInf
      else if r \<le> - overflow_bound then NegInf
      else if r = 0 then Finite 0
      else Finite (float_round L r))"

text \<open>Addition, multiplication and division of floats, with the special values.\<close>

fun float_add :: "pylib \<Rightarrow> pyfloat \<Rightarrow> pyfloat \<Rightarrow> pyfloat" where
  "float_add L (Finite a) (Finite b) = fl L (a + b)"
| "float_add L NaN y = NaN"
| "float_add L (Finite a) NaN = NaN"
| "float_add L PosInf NaN = NaN"
| "float_add L NegInf NaN = NaN"
| "float_add L (Finite a) PosInf = PosInf"
| "float_add L (Finite a) NegInf = NegInf"
| "float_add L PosInf (Finite b) = PosInf"
| "float_add L PosInf PosInf = PosInf"
| "float_add L PosInf NegInf = NaN"
| "float_add L NegInf (Finite b) = NegInf"
| "float_add L NegInf PosInf = NaN"
| "float_add L NegInf NegInf = NegInf"

text \<open>
  The sign of a finite float, and the infinity of a sign: an infinity times zero is NaN.
\<close>

definition finite_sign :: "rat \<Rightarrow> int" where
  "finite_sign a = (if a = 0 then 0 else if 0 < a then 1 else - 1)"

definition signed_inf :: "int \<Rightarrow> pyfloat" where
  "signed_inf s = (if s = 0 then NaN else if 0 < s then PosInf else NegInf)"

fun float_mul :: "pylib \<Rightarrow> pyfloat \<Rightarrow> pyfloat \<Rightarrow> pyfloat" where
  "float_mul L (Finite a) (Finite b) = fl L (a * b)"
| "float_mul L NaN y = NaN"
| "float_mul L (Finite a) NaN = NaN"
| "float_mul L PosInf NaN = NaN"
| "float_mul L NegInf NaN = NaN"
| "float_mul L (Finite a) PosInf = signed_inf (finite_sign a)"
| "float_mul L (Finite a) NegInf = signed_inf (- finite_sign a)"
| "float_mul L PosInf (Finite b) = signed_inf (finite_sign b)"
| "float_mul L PosInf PosInf = PosInf"
| "float_mul L PosInf NegInf = NegInf"
| "float_mul L NegInf (Finite b) = signed_inf (- finite_sign b)"
| "float_mul L NegInf PosInf = NegInf"
| "float_mul L NegInf NegInf = PosInf"

text \<open>\<open>float_div\<close> is called with a divisor that is not zero.\<close>

fun float_div :: "pylib \<Rightarrow> pyfloat \<Rightarrow> pyfloat \<Rightarrow> pyfloat" where
  "float_div L (Finite a) (Finite b) = fl L (a / b)"
| "float_div L NaN y = NaN"
| "float_div L (Finite a) NaN = NaN"
| "float_div L PosInf NaN = NaN"
| "float_div L NegInf NaN = NaN"
| "float_div L (Finite a) PosInf = Finite 0"
| "float_div L (Finite a) NegInf = Finite 0"
| "float_div L PosInf (Finite b) = signed_inf (finite_sign b)"
| "float_div L PosInf PosInf = NaN"
| "float_div L PosInf NegInf = NaN"
| "float_div L NegInf (Finite b) = signed_inf (- finite_sign b)"
| "float_div L NegInf PosInf = NaN"
| "float_div L NegInf NegInf = NaN"

text \<open>
  The conversion of a number to a float, which the mixed operations apply to an integer
  operand, raises \<^verbatim>\<open>OverflowError\<close> on an integer beyond the floats; an integer of
  magnitude up to \<open>2 ^ 53\<close> is a float itself.
\<close>

fun to_float :: "pylib \<Rightarrow> pynum \<Rightarrow> py_error + pyfloat" where
  "to_float L (PyFloat x) = Inr x"
| "to_float L (PyInt i) =
     (if overflow_bound \<le> \<bar>of_int i\<bar> then Inl OverflowError
      else if \<bar>i\<bar> \<le> 2 ^ 53 then Inr (Finite (of_int i))
      else Inr (Finite (float_round L (of_int i))))"

text \<open>
  \<^verbatim>\<open>a + b\<close>, \<^verbatim>\<open>a * b\<close> and \<^verbatim>\<open>a / b\<close>. Two integers are added and multiplied exactly
  and their quotient is rounded once, with \<^verbatim>\<open>OverflowError\<close> when it is beyond the
  floats; otherwise both operands are converted and the float operation applies. A
  division by zero raises \<^verbatim>\<open>ZeroDivisionError\<close>.
\<close>

fun py_add :: "pylib \<Rightarrow> pynum \<Rightarrow> pynum \<Rightarrow> py_error + pynum" where
  "py_add L (PyInt a) (PyInt b) = Inr (PyInt (a + b))"
| "py_add L x y =
     (case to_float L x of
        Inl e \<Rightarrow> Inl e
      | Inr a \<Rightarrow>
          (case to_float L y of
             Inl e \<Rightarrow> Inl e
           | Inr b \<Rightarrow> Inr (PyFloat (float_add L a b))))"

fun py_mul :: "pylib \<Rightarrow> pynum \<Rightarrow> pynum \<Rightarrow> py_error + pynum" where
  "py_mul L (PyInt a) (PyInt b) = Inr (PyInt (a * b))"
| "py_mul L x y =
     (case to_float L x of
        Inl e \<Rightarrow> Inl e
      | Inr a \<Rightarrow>
          (case to_float L y of
             Inl e \<Rightarrow> Inl e
           | Inr b \<Rightarrow> Inr (PyFloat (float_mul L a b))))"

fun truediv :: "pylib \<Rightarrow> pynum \<Rightarrow> pynum \<Rightarrow> py_error + pynum" where
  "truediv L (PyInt a) (PyInt b) =
     (if b = 0 then Inl ZeroDivisionError
      else if overflow_bound \<le> \<bar>of_int a / of_int b\<bar> then Inl OverflowError
      else Inr (PyFloat (fl L (of_int a / of_int b))))"
| "truediv L x y =
     (case to_float L x of
        Inl e \<Rightarrow> Inl e
      | Inr a \<Rightarrow>
          (case to_float L y of
             Inl e \<Rightarrow> Inl e
           | Inr b \<Rightarrow>
               (if b = Finite 0 then Inl ZeroDivisionError
                else Inr (PyFloat (float_div L a b)))))"

text \<open>
  The comparisons of a number with an integer literal: \<^verbatim>\<open>x == n\<close>, \<^verbatim>\<open>x >= n\<close>, and,
  for the statements below, \<^verbatim>\<open>x < n\<close> and \<^verbatim>\<open>x > n\<close>. Every comparison with NaN is
  false.
\<close>

fun py_eq :: "pynum \<Rightarrow> int \<Rightarrow> bool" where
  "py_eq (PyInt i) n = (i = n)"
| "py_eq (PyFloat (Finite r)) n = (r = of_int n)"
| "py_eq (PyFloat PosInf) n = False"
| "py_eq (PyFloat NegInf) n = False"
| "py_eq (PyFloat NaN) n = False"

fun py_ge :: "pynum \<Rightarrow> int \<Rightarrow> bool" where
  "py_ge (PyInt i) n = (i \<ge> n)"
| "py_ge (PyFloat (Finite r)) n = (r \<ge> of_int n)"
| "py_ge (PyFloat PosInf) n = True"
| "py_ge (PyFloat NegInf) n = False"
| "py_ge (PyFloat NaN) n = False"

fun py_lt :: "pynum \<Rightarrow> int \<Rightarrow> bool" where
  "py_lt (PyInt i) n = (i < n)"
| "py_lt (PyFloat (Finite r)) n = (r < of_int n)"
| "py_lt (PyFloat PosInf) n = False"
| "py_lt (PyFloat NegInf) n = True"
| "py_lt (PyFloat NaN) n = False"

fun py_gt :: "pynum \<Rightarrow> int \<Rightarrow> bool" where
  "py_gt (PyInt i) n = (i > n)"
| "py_gt (PyFloat (Finite r)) n = (r > of_int n)"
| "py_gt (PyFloat PosInf) n = True"
| "py_gt (PyFloat NegInf) n = False"
| "py_gt (PyFloat NaN) n = False"

text \<open>
  \<^verbatim>\<open>sum(xs)\<close> starts from the integer 0 and adds the items from left to right; an
  error of an addition ends it.
\<close>

fun sum_from :: "pylib \<Rightarrow> pynum \<Rightarrow> pynum list \<Rightarrow> py_error + pynum" where
  "sum_from L acc [] = Inr acc"
| "sum_from L acc (x # xs) =
     (case py_add L acc x of
        Inl e \<Rightarrow> Inl e
      | Inr acc' \<Rightarrow> sum_from L acc' xs)"

definition py_sum :: "pylib \<Rightarrow> pynum list \<Rightarrow> py_error + pynum" where
  "py_sum L xs = sum_from L (PyInt 0) xs"

section \<open>The analyzer\<close>

text \<open>\<^verbatim>\<open>BLACKLIST\<close>, lines 21 to 24.\<close>

definition BLACKLIST :: "pystr set" where
  "BLACKLIST = set (map str
     [''password'', ''123456'', ''123456789'', ''guest'', ''admin'',
      ''qwerty'', ''letmein'', ''monkey'', ''sunshine'', ''iloveyou''])"

text \<open>
  The keys of the \<^verbatim>\<open>criteria\<close> and \<^verbatim>\<open>weights\<close> dictionaries are the five criterion
  names. A dictionary over all five keys is a function on \<open>criterion\<close> together with the
  order in which the keys were inserted, which is the order \<^verbatim>\<open>items()\<close> yields them in.
  The weights are the list of the (key, weight) pairs of \<^verbatim>\<open>weights.items()\<close>, each
  weight a Python number. A weights dictionary with any other key, on which line 67
  raises \<^verbatim>\<open>KeyError\<close>, is outside this type.
\<close>

datatype criterion = Length | Uppercase | Lowercase | Digit | Special

datatype strength_label = Weak | Moderate | Strong

type_synonym weights = "(criterion \<times> pynum) list"

text \<open>
  The dictionary that \<^verbatim>\<open>analyze_password\<close> returns: \<open>error\<close> is its \<^verbatim>\<open>"error"\<close> entry,
  and the other entries are those of the branch taken.
\<close>

datatype verdict =
    error: Rejection (message: pystr)
  | Analysis (criteria: "criterion \<Rightarrow> bool") (score: pynum) (max_score: pynum)
      (strength: strength_label) (feedback: pystr)

text \<open>
  The texts. Each begins with a symbol beyond ASCII, given by its code point: the cross
  mark U+274C, the light bulb U+1F4A1 and the check mark U+2705.
\<close>

definition blacklist_message :: pystr where
  "blacklist_message =
     0x274C # str '' Commonly used password detected! Please choose a different one.''"

definition feedback_header :: pystr where
  "feedback_header = 0x1F4A1 # str '' Strengthen your password by adding:''"

definition perfect_message :: pystr where
  "perfect_message = 0x2705 # str '' Perfectly secure password!''"

definition hint_length :: pystr where
  "hint_length = 0x2705 # str '' More characters (minimum 8)''"

definition hint_uppercase :: pystr where
  "hint_uppercase = 0x2705 # str '' Uppercase letters''"

definition hint_lowercase :: pystr where
  "hint_lowercase = 0x2705 # str '' Lowercase letters''"

definition hint_digit :: pystr where
  "hint_digit = 0x2705 # str '' Numbers''"

definition hint_special :: pystr where
  "hint_special = 0x2705 # str '' Special characters''"

text \<open>The \<^verbatim>\<open>criteria\<close> dictionary, lines 58 to 64, and the order of its keys.\<close>

definition criteria_of :: "pylib \<Rightarrow> pystr \<Rightarrow> criterion \<Rightarrow> bool" where
  "criteria_of L password k =
     (case k of
        Length \<Rightarrow> length password \<ge> 8
      | Uppercase \<Rightarrow> list_ex (isupper L) password
      | Lowercase \<Rightarrow> list_ex (islower L) password
      | Digit \<Rightarrow> list_ex (isdigit L) password
      | Special \<Rightarrow> list_ex (\<lambda>c. c \<in> set punctuation) password)"

definition criteria_keys :: "criterion list" where
  "criteria_keys = [Length, Uppercase, Lowercase, Digit, Special]"

text \<open>
  The score, lines 67 and 68. Either sum raises when one of its additions does.
\<close>

definition total_score_of :: "pylib \<Rightarrow> weights \<Rightarrow> (criterion \<Rightarrow> bool) \<Rightarrow> py_error + pynum" where
  "total_score_of L ws criteria' =
     py_sum L (map snd (filter (\<lambda>(criterion, weight). criteria' criterion) ws))"

definition max_score_of :: "pylib \<Rightarrow> weights \<Rightarrow> py_error + pynum" where
  "max_score_of L ws = py_sum L (map snd ws)"

text \<open>
  The strength level, lines 71 to 80. \<open>score_percent\<close> is the value of the local
  variable of that name, the quotient times 100; the division raises when the divisor is
  zero, which the test before it excludes, and on an overflow. Here and below, a local
  variable that shares its name with an entry of the returned dictionary carries a prime.
\<close>

definition band :: "pynum \<Rightarrow> strength_label" where
  "band score_percent' =
     (if py_ge score_percent' 80 then Strong
      else if py_ge score_percent' 40 then Moderate
      else Weak)"

definition score_percent :: "pylib \<Rightarrow> pynum \<Rightarrow> pynum \<Rightarrow> py_error + pynum" where
  "score_percent L total_score max_score' =
     (case truediv L total_score max_score' of
        Inl e \<Rightarrow> Inl e
      | Inr q \<Rightarrow> py_mul L q (PyInt 100))"

definition strength_of :: "pylib \<Rightarrow> pynum \<Rightarrow> pynum \<Rightarrow> py_error + strength_label" where
  "strength_of L total_score max_score' =
     (if py_eq max_score' 0 then Inr Weak
      else case score_percent L total_score max_score' of
             Inl e \<Rightarrow> Inl e
           | Inr p \<Rightarrow> Inr (band p))"

text \<open>
  The feedback lines, lines 83 to 97: the loop over the missing criteria appends one text
  for the name it recognises.
\<close>

fun hint_loop :: "criterion list \<Rightarrow> pystr list \<Rightarrow> pystr list" where
  "hint_loop [] feedback' = feedback'"
| "hint_loop (criterion # missing) feedback' =
     hint_loop missing
       (if criterion = Length then feedback' @ [hint_length]
        else if criterion = Uppercase then feedback' @ [hint_uppercase]
        else if criterion = Lowercase then feedback' @ [hint_lowercase]
        else if criterion = Digit then feedback' @ [hint_digit]
        else if criterion = Special then feedback' @ [hint_special]
        else feedback')"

text \<open>The branches of that loop as a table: the text appended for each criterion.\<close>

fun hint_for :: "criterion \<Rightarrow> pystr" where
  "hint_for Length = hint_length"
| "hint_for Uppercase = hint_uppercase"
| "hint_for Lowercase = hint_lowercase"
| "hint_for Digit = hint_digit"
| "hint_for Special = hint_special"

definition feedback_lines :: "strength_label \<Rightarrow> (criterion \<Rightarrow> bool) \<Rightarrow> pystr list" where
  "feedback_lines strength' criteria' =
     (if strength' \<noteq> Strong then
        (let missing = filter (\<lambda>k. \<not> criteria' k) criteria_keys
         in hint_loop missing [feedback_header])
      else [])"

text \<open>
  The state in which the functions of the module run: the two lists of
  \<^verbatim>\<open>st.session_state\<close> (lines 15 to 18; an entry of the first is the password, the
  strength, the score and the maximal score of an analysis) and the hidden state of the
  \<^verbatim>\<open>random\<close> module, which is the stream of the raw numbers still to be drawn.
\<close>

type_synonym rng = "nat stream"

record world =
  password_analysis :: "(pystr \<times> strength_label \<times> pynum \<times> pynum) list"
  generated_passwords :: "pystr list"
  random_state :: rng

text \<open>
  \<^verbatim>\<open>analyze_password\<close>, lines 48 to 106, as a function of its two arguments and of the
  state \<open>w\<close> it is called in, returning its result (or the error raised) and the state it
  leaves; \<open>[10]\<close> is the newline.
\<close>

definition analyze_password ::
  "pylib \<Rightarrow> pystr \<Rightarrow> weights \<Rightarrow> world \<Rightarrow> (py_error + verdict) \<times> world" where
  "analyze_password L password ws w =
     (if lower L password \<in> BLACKLIST then (Inr (Rejection blacklist_message), w)
      else
        (let criteria' = criteria_of L password in
         case total_score_of L ws criteria' of
           Inl e \<Rightarrow> (Inl e, w)
         | Inr total_score \<Rightarrow>
        (case max_score_of L ws of
           Inl e \<Rightarrow> (Inl e, w)
         | Inr max_score' \<Rightarrow>
        (case strength_of L total_score max_score' of
           Inl e \<Rightarrow> (Inl e, w)
         | Inr strength' \<Rightarrow>
             (let feedback' = feedback_lines strength' criteria'
              in (Inr (Analysis criteria' total_score max_score' strength'
                    (if feedback' \<noteq> [] then join [10] feedback' else perfect_message)),
                  w))))))"

section \<open>The generator\<close>

text \<open>
  The generator uses the state of the \<^verbatim>\<open>random\<close> module only and is written over that
  part of the state: \<open>randbelow n\<close> takes the next raw number and reduces it below \<open>n\<close>,
  so every index below \<open>n\<close> is a possible result, and the functions of the module are
  written over it as the module writes them over its own \<^verbatim>\<open>_randbelow\<close>. The theorems
  hold for every stream, that is, for every outcome of the draws.
\<close>

definition randbelow :: "nat \<Rightarrow> rng \<Rightarrow> nat \<times> rng" where
  "randbelow n g = (shd g mod n, stl g)"

text \<open>\<^verbatim>\<open>random.choice(seq)\<close> raises \<^verbatim>\<open>IndexError\<close> on an empty sequence.\<close>

definition choice :: "pystr \<Rightarrow> rng \<Rightarrow> py_error + (pychar \<times> rng)" where
  "choice seq g =
     (if seq = [] then Inl IndexError
      else case randbelow (length seq) g of (i, g') \<Rightarrow> Inr (seq ! i, g'))"

text \<open>\<^verbatim>\<open>random.choices(population, k=k)\<close>: \<open>k\<close> independent draws, in order.\<close>

fun choices :: "pystr \<Rightarrow> nat \<Rightarrow> rng \<Rightarrow> py_error + (pystr \<times> rng)" where
  "choices population 0 g = Inr ([], g)"
| "choices population (Suc k) g =
     (case choice population g of
        Inl e \<Rightarrow> Inl e
      | Inr (c, g1) \<Rightarrow>
          (case choices population k g1 of
             Inl e \<Rightarrow> Inl e
           | Inr (cs, g2) \<Rightarrow> Inr (c # cs, g2)))"

text \<open>
  \<^verbatim>\<open>random.shuffle(x)\<close>: for \<open>i\<close> from the last index down to 1, draw \<open>j\<close> below
  \<open>i + 1\<close> and exchange the entries at \<open>i\<close> and \<open>j\<close>.
\<close>

fun shuffle_loop :: "nat \<Rightarrow> 'a list \<Rightarrow> rng \<Rightarrow> 'a list \<times> rng" where
  "shuffle_loop 0 x g = (x, g)"
| "shuffle_loop (Suc i) x g =
     (case randbelow (Suc i + 1) g of
        (j, g') \<Rightarrow> shuffle_loop i (x[Suc i := x ! j, j := x ! Suc i]) g')"

definition shuffle :: "'a list \<Rightarrow> rng \<Rightarrow> 'a list \<times> rng" where
  "shuffle x g = shuffle_loop (length x - 1) x g"

text \<open>
  \<^verbatim>\<open>generate_strong_password\<close>, lines 27 to 45. The requested length is a Python
  integer; the result is the password and the generator state left behind.
\<close>

definition generate_strong_password :: "int \<Rightarrow> rng \<Rightarrow> py_error + (pystr \<times> rng)" where
  "generate_strong_password length0 g =
     (let length' = (if length0 < 8 then 8 else length0) in
      (case choice ascii_uppercase g of
         Inl e \<Rightarrow> Inl e
       | Inr (uppercase, g1) \<Rightarrow>
      (case choice ascii_lowercase g1 of
         Inl e \<Rightarrow> Inl e
       | Inr (lowercase, g2) \<Rightarrow>
      (case choice digits g2 of
         Inl e \<Rightarrow> Inl e
       | Inr (digit, g3) \<Rightarrow>
      (case choice punctuation g3 of
         Inl e \<Rightarrow> Inl e
       | Inr (special, g4) \<Rightarrow>
        (let remaining = length' - 4;
             all_chars = ascii_letters @ digits @ punctuation
         in (case choices all_chars (nat remaining) g4 of
               Inl e \<Rightarrow> Inl e
             | Inr (rest, g5) \<Rightarrow>
                 (let password = [uppercase, lowercase, digit, special] @ rest
                  in (case shuffle password g5 of
                        (password', g6) \<Rightarrow> Inr (password', g6))))))))))"

section \<open>A runtime, weights and states for the worked examples\<close>

text \<open>
  The examples are ASCII passwords, on which the Unicode parameters are never consulted,
  and their arithmetic within the range of the floats is taken exactly: \<open>float_round\<close>
  is the identity. \<open>unit_weights\<close> is the weight dictionary that \<^verbatim>\<open>main\<close> builds (lines 115
  to 121) when every input is at its default 1.0, \<open>zero_weights\<close> the one with every
  input at 0.0; \<open>Float r\<close> is the finite float of value \<open>r\<close>. \<open>fresh_world\<close> is a session that has just begun, \<open>used_world\<close> one
  with an analysis and a generated password behind it.
\<close>

definition exact_lib :: pylib where
  "exact_lib = \<lparr>unicode_lower = (\<lambda>s. s), unicode_isupper = (\<lambda>c. False),
     unicode_islower = (\<lambda>c. False), unicode_isdigit = (\<lambda>c. False),
     float_round = (\<lambda>x. x)\<rparr>"

abbreviation Float :: "rat \<Rightarrow> pynum" where
  "Float r \<equiv> PyFloat (Finite r)"

definition unit_weights :: weights where
  "unit_weights =
     [(Length, Float 1), (Uppercase, Float 1), (Lowercase, Float 1), (Digit, Float 1),
      (Special, Float 1)]"

definition zero_weights :: weights where
  "zero_weights =
     [(Length, Float 0), (Uppercase, Float 0), (Lowercase, Float 0), (Digit, Float 0),
      (Special, Float 0)]"

text \<open>
  Weights at the top of the range of the floats: each is the float \<open>2 ^ 1023\<close>, and the
  sum of two of them is beyond the largest float.
\<close>

definition huge_weights :: weights where
  "huge_weights =
     [(Length, Float (2 ^ 1023)), (Uppercase, Float (2 ^ 1023)),
      (Lowercase, Float (2 ^ 1023)), (Digit, Float (2 ^ 1023)),
      (Special, Float (2 ^ 1023))]"


text \<open>
  Two kinds of weight dictionaries: all weights floats, as the number inputs of
  \<^verbatim>\<open>main\<close> yield them, and all weights integers that are not negative.
\<close>

fun is_float :: "pynum \<Rightarrow> bool" where
  "is_float (PyFloat x) = True"
| "is_float (PyInt i) = False"

fun is_nonneg_int :: "pynum \<Rightarrow> bool" where
  "is_nonneg_int (PyInt i) = (0 \<le> i)"
| "is_nonneg_int (PyFloat x) = False"

definition float_weights :: "weights \<Rightarrow> bool" where
  "float_weights ws = list_all (\<lambda>(criterion, weight). is_float weight) ws"

definition nonneg_int_weights :: "weights \<Rightarrow> bool" where
  "nonneg_int_weights ws = list_all (\<lambda>(criterion, weight). is_nonneg_int weight) ws"

definition fresh_world :: world where
  "fresh_world =
     \<lparr>password_analysis = [], generated_passwords = [], random_state = sconst 0\<rparr>"

definition used_world :: world where
  "used_world =
     \<lparr>password_analysis = [(str ''abc'', Weak, Float 1, Float 5)],
      generated_passwords = [str ''a0!aaaaA''], random_state = sconst 1\<rparr>"

section \<open>Facts about the numbers\<close>

lemma overflow_bound_large: "2 ^ 1000 < overflow_bound"
  by (simp add: overflow_bound_def)

lemma fl_in_range:
  "- (2 ^ 1000) \<le> r \<Longrightarrow> r \<le> 2 ^ 1000 \<Longrightarrow>
     fl L r = (if r = 0 then Finite 0 else Finite (float_round L r))"
  using overflow_bound_large by (simp add: fl_def)

lemma fl_finite:
  "\<bar>r\<bar> < overflow_bound \<Longrightarrow> fl L r = (if r = 0 then Finite 0 else Finite (float_round L r))"
  by (auto simp: fl_def)

lemma fl_0: "fl L 0 = Finite 0"
  using overflow_bound_large by (simp add: fl_def)

lemma to_float_small:
  assumes "\<bar>i\<bar> \<le> 1000"
  shows "to_float L (PyInt i) = Inr (Finite (of_int i))"
proof -
  from assms have "\<bar>(of_int i :: rat)\<bar> \<le> 1000"
    by (metis of_int_abs of_int_le_iff of_int_numeral)
  then have "\<bar>(of_int i :: rat)\<bar> < overflow_bound"
    using overflow_bound_large by simp
  moreover from assms have "\<bar>i\<bar> \<le> 2 ^ 53" by simp
  ultimately show ?thesis by simp
qed

lemma to_float_0: "to_float L (PyInt 0) = Inr (Finite 0)"
  using to_float_small [of 0 L] by simp

lemma to_float_100: "to_float L (PyInt 100) = Inr (Finite 100)"
  using to_float_small [of 100 L] by simp

lemma exact_round: "float_round exact_lib x = x"
  by (simp add: exact_lib_def)

lemma fl_exact: "- 1000 \<le> r \<Longrightarrow> r \<le> 1000 \<Longrightarrow> fl exact_lib r = Finite r"
  by (simp add: fl_in_range exact_round)

section \<open>Facts about the analyzer's steps\<close>

lemma strength_of_zero: "py_eq m 0 \<Longrightarrow> strength_of L t m = Inr Weak"
  by (simp add: strength_of_def)

lemma strength_of_band:
  "\<not> py_eq m 0 \<Longrightarrow> score_percent L t m = Inr p \<Longrightarrow> strength_of L t m = Inr (band p)"
  by (simp add: strength_of_def)

lemma strength_of_percent:
  assumes "strength_of L t m = Inr s" and "\<not> py_eq m 0"
  shows "\<exists>q p. truediv L t m = Inr q \<and> py_mul L q (PyInt 100) = Inr p \<and> s = band p"
  using assms by (auto simp: strength_of_def score_percent_def split: sum.splits)

lemma hint_loop_append: "hint_loop missing fb = fb @ map hint_for missing"
proof (induction missing arbitrary: fb)
  case Nil
  show ?case by simp
next
  case (Cons k ks)
  show ?case by (cases k) (simp_all add: Cons.IH)
qed

lemma feedback_lines_not_Strong:
  "s \<noteq> Strong \<Longrightarrow>
     feedback_lines s c = feedback_header # map hint_for (filter (\<lambda>k. \<not> c k) criteria_keys)"
  by (simp add: feedback_lines_def hint_loop_append)

lemma feedback_lines_Strong: "feedback_lines Strong c = []"
  by (simp add: feedback_lines_def)

lemma analyze_password_state: "snd (analyze_password L password ws w) = w"
  by (simp add: analyze_password_def Let_def split: sum.splits)

lemma analyze_password_returns:
  assumes "lower L password \<notin> BLACKLIST"
    and "total_score_of L ws (criteria_of L password) = Inr t"
    and "max_score_of L ws = Inr m"
    and "strength_of L t m = Inr s"
  shows "fst (analyze_password L password ws w) =
     Inr (Analysis (criteria_of L password) t m s
       (if feedback_lines s (criteria_of L password) \<noteq> []
        then join [10] (feedback_lines s (criteria_of L password)) else perfect_message))"
  using assms by (simp add: analyze_password_def Let_def)

lemma analyze_password_fields:
  assumes "lower L password \<notin> BLACKLIST"
    and "fst (analyze_password L password ws w) = Inr v"
  shows "\<not> error v"
    and "criteria v = criteria_of L password"
    and "total_score_of L ws (criteria_of L password) = Inr (score v)"
    and "max_score_of L ws = Inr (max_score v)"
    and "strength_of L (score v) (max_score v) = Inr (strength v)"
    and "feedback v = (if feedback_lines (strength v) (criteria v) \<noteq> []
           then join [10] (feedback_lines (strength v) (criteria v)) else perfect_message)"
  using assms by (auto simp: analyze_password_def Let_def split: sum.splits)

lemma prefix_join: "prefix x (join sep (x # xs))"
  by (cases xs) simp_all

lemma join_nonempty: "x \<noteq> [] \<Longrightarrow> join sep (x # xs) \<noteq> []"
  by (cases xs) simp_all

lemma join_lines: "join [n] (x # xs) = x @ concat (map (\<lambda>y. n # y) xs)"
  by (induction xs arbitrary: x) simp_all

text \<open>Evaluation of the worked examples.\<close>

lemmas char_eval =
  str_def lower_def is_ascii_def ascii_lower_def isupper_def islower_def isdigit_def
  punctuation_def

lemmas score_eval =
  total_score_of_def max_score_of_def py_sum_def to_float_0 to_float_100 fl_exact
  exact_round

lemma PassWord_blacklisted: "lower L (str ''PassWord'') \<in> BLACKLIST"
  by (simp add: char_eval BLACKLIST_def)

lemma PassWord_criteria:
  "criteria_of L (str ''PassWord'') k = (k = Length \<or> k = Uppercase \<or> k = Lowercase)"
  by (cases k) (simp_all add: criteria_of_def char_eval)

lemma PASSWORD_blacklisted: "lower L (str ''PASSWORD'') \<in> BLACKLIST"
  by (simp add: char_eval BLACKLIST_def)

lemma PASSWORD_criteria:
  "criteria_of L (str ''PASSWORD'') k = (k = Length \<or> k = Uppercase)"
  by (cases k) (simp_all add: criteria_of_def char_eval)

lemma unit_weights_max: "max_score_of exact_lib unit_weights = Inr (Float 5)"
  by (simp add: score_eval unit_weights_def del: to_float.simps(2))

lemma zero_weights_max: "max_score_of exact_lib zero_weights = Inr (Float 0)"
  by (simp add: score_eval zero_weights_def del: to_float.simps(2))

lemma percent_2_of_5: "score_percent exact_lib (Float 2) (Float 5) = Inr (Float 40)"
  by (simp add: score_percent_def score_eval del: to_float.simps(2))

lemma percent_4_of_5: "score_percent exact_lib (Float 4) (Float 5) = Inr (Float 80)"
  by (simp add: score_percent_def score_eval del: to_float.simps(2))

section \<open>The blacklist\<close>

text \<open>
  Claim C1. A password whose lower-cased form is one of the ten entries of the blacklist
  is rejected, whatever the weights: the verdict is the rejection with its message and
  \<open>error\<close> true, and carries no criteria, score or strength. (The instance below is a
  password that the scoring steps alone would classify as Strong.)
\<close>

theorem blacklisted_password_rejected:
  "lower L password \<in> BLACKLIST \<Longrightarrow>
     analyze_password L password ws w = (Inr (Rejection blacklist_message), w) \<and>
     error (Rejection blacklist_message)"
  by (simp add: analyze_password_def)

theorem blacklisted_password_rejected_witness:
  "lower exact_lib (str ''PassWord'') \<in> BLACKLIST \<and>
   analyze_password exact_lib (str ''PassWord'')
       [(Length, Float 1), (Uppercase, Float 1), (Lowercase, Float 1), (Digit, Float 0),
        (Special, Float 0)] fresh_world
     = (Inr (Rejection blacklist_message), fresh_world) \<and>
   total_score_of exact_lib
       [(Length, Float 1), (Uppercase, Float 1), (Lowercase, Float 1), (Digit, Float 0),
        (Special, Float 0)] (criteria_of exact_lib (str ''PassWord'')) = Inr (Float 3) \<and>
   max_score_of exact_lib
       [(Length, Float 1), (Uppercase, Float 1), (Lowercase, Float 1), (Digit, Float 0),
        (Special, Float 0)] = Inr (Float 3) \<and>
   strength_of exact_lib (Float 3) (Float 3) = Inr Strong"
proof -
  have b: "lower exact_lib (str ''PassWord'') \<in> BLACKLIST"
    by (rule PassWord_blacklisted)
  have t: "total_score_of exact_lib
       [(Length, Float 1), (Uppercase, Float 1), (Lowercase, Float 1), (Digit, Float 0),
        (Special, Float 0)] (criteria_of exact_lib (str ''PassWord'')) = Inr (Float 3)"
    by (simp add: score_eval PassWord_criteria del: to_float.simps(2))
  have m: "max_score_of exact_lib
       [(Length, Float 1), (Uppercase, Float 1), (Lowercase, Float 1), (Digit, Float 0),
        (Special, Float 0)] = Inr (Float 3)"
    by (simp add: score_eval del: to_float.simps(2))
  have s: "strength_of exact_lib (Float 3) (Float 3) = Inr Strong"
    by (simp add: strength_of_def score_percent_def score_eval band_def
          del: to_float.simps(2))
  from blacklisted_password_rejected [OF b] b t m s show ?thesis
    by simp
qed

text \<open>
  Claim C5, as the specification states it: with unit weights, \<^verbatim>\<open>"PASSWORD"\<close> gets a
  success verdict with score 2 of 5 and the label Moderate. It does not: lower-cased it
  is the blacklist entry \<^verbatim>\<open>"password"\<close>, and the verdict is the rejection.
\<close>

theorem PASSWORD_unit_weights_counterexample:
  "fst (analyze_password exact_lib (str ''PASSWORD'') unit_weights fresh_world)
     = Inr (Rejection blacklist_message) \<and>
   error (projr (fst (analyze_password exact_lib (str ''PASSWORD'') unit_weights fresh_world)))"
  by (simp add: analyze_password_def PASSWORD_blacklisted)

text \<open>
  Claim C5, amended. Whatever the weights, \<^verbatim>\<open>"PASSWORD"\<close> is rejected as blacklisted.
  The evaluation the claim describes is that of the scoring steps taken by themselves,
  which the analyzer does not reach for this password: the length and uppercase criteria
  hold, the lowercase, digit and special criteria do not, and with unit weights the score
  is 2 of 5, which is 40 percent and the label Moderate.
\<close>

theorem PASSWORD_rejected:
  "fst (analyze_password L (str ''PASSWORD'') ws w) = Inr (Rejection blacklist_message) \<and>
   criteria_of L (str ''PASSWORD'') Length \<and>
   criteria_of L (str ''PASSWORD'') Uppercase \<and>
   \<not> criteria_of L (str ''PASSWORD'') Lowercase \<and>
   \<not> criteria_of L (str ''PASSWORD'') Digit \<and>
   \<not> criteria_of L (str ''PASSWORD'') Special \<and>
   total_score_of exact_lib unit_weights (criteria_of exact_lib (str ''PASSWORD''))
     = Inr (Float 2) \<and>
   max_score_of exact_lib unit_weights = Inr (Float 5) \<and>
   score_percent exact_lib (Float 2) (Float 5) = Inr (Float 40) \<and>
   strength_of exact_lib (Float 2) (Float 5) = Inr Moderate"
proof -
  have "total_score_of exact_lib unit_weights (criteria_of exact_lib (str ''PASSWORD''))
     = Inr (Float 2)"
    by (simp add: score_eval unit_weights_def PASSWORD_criteria del: to_float.simps(2))
  moreover have "strength_of exact_lib (Float 2) (Float 5) = Inr Moderate"
    by (simp add: strength_of_def percent_2_of_5 band_def)
  ultimately show ?thesis
    by (simp add: analyze_password_def PASSWORD_blacklisted PASSWORD_criteria
          unit_weights_max percent_2_of_5)
qed

theorem PASSWORD_rejected_witness:
  "fst (analyze_password exact_lib (str ''PASSWORD'')
       [(Length, Float 5), (Uppercase, Float 5), (Lowercase, Float 0), (Digit, Float 0),
        (Special, Float 0)] used_world)
     = Inr (Rejection blacklist_message)"
  using PASSWORD_rejected [of exact_lib "[(Length, Float 5), (Uppercase, Float 5),
    (Lowercase, Float 0), (Digit, Float 0), (Special, Float 0)]" used_world]
  by simp

section \<open>Weights on which nothing is raised\<close>

lemma py_mul_float_100:
  "py_mul L (PyFloat x) (PyInt 100) = Inr (PyFloat (float_mul L x (Finite 100)))"
  by (simp add: to_float_100 del: to_float.simps(2))

lemma sum_from_floats:
  "list_all is_float xs \<Longrightarrow> \<exists>z. sum_from L (PyFloat a) xs = Inr (PyFloat z)"
proof (induction xs arbitrary: a)
  case Nil
  show ?case by simp
next
  case (Cons x xs)
  from Cons.prems obtain b where x: "x = PyFloat b" by (cases x) auto
  from Cons.prems have "list_all is_float xs" by simp
  then show ?case using Cons.IH by (simp add: x)
qed

lemma py_sum_floats:
  assumes "list_all is_float xs"
  shows "py_sum L xs = Inr (PyInt 0) \<or> (\<exists>z. py_sum L xs = Inr (PyFloat z))"
proof (cases xs)
  case Nil
  then show ?thesis by (simp add: py_sum_def)
next
  case (Cons x ys)
  with assms obtain b where x: "x = PyFloat b" by (cases x) auto
  from assms Cons have "list_all is_float ys" by simp
  then obtain z where "sum_from L (PyFloat (float_add L (Finite 0) b)) ys = Inr (PyFloat z)"
    using sum_from_floats by blast
  then show ?thesis
    by (simp add: py_sum_def Cons x to_float_0 del: to_float.simps(2))
qed

lemma float_weights_values:
  "float_weights ws \<Longrightarrow> list_all is_float (map snd (filter P ws))"
  by (induction ws) (auto simp: float_weights_def)

lemma sums_nonneg_ints:
  assumes "nonneg_int_weights ws" and "0 \<le> a" and "a \<le> b"
  shows "\<exists>t m. sum_from L (PyInt a) (map snd (filter P ws)) = Inr (PyInt t) \<and>
           sum_from L (PyInt b) (map snd ws) = Inr (PyInt m) \<and> 0 \<le> t \<and> t \<le> m"
  using assms
proof (induction ws arbitrary: a b)
  case Nil
  then show ?case by simp
next
  case (Cons kw ws)
  obtain k x where kw: "kw = (k, x)" by (cases kw)
  from Cons.prems(1) obtain i where x: "x = PyInt i" and i: "0 \<le> i"
    by (cases x) (auto simp: nonneg_int_weights_def kw)
  from Cons.prems(1) have ws: "nonneg_int_weights ws"
    by (simp add: nonneg_int_weights_def)
  show ?case
  proof (cases "P kw")
    case True
    from Cons.prems i have "0 \<le> a + i" "a + i \<le> b + i" by simp_all
    from Cons.IH [OF ws this] True show ?thesis by (simp add: kw x)
  next
    case False
    from Cons.prems i have "0 \<le> a" "a \<le> b + i" by simp_all
    from Cons.IH [OF ws this] False show ?thesis by (simp add: kw x)
  qed
qed

lemma strength_of_float_divisor:
  assumes "t = PyInt 0 \<or> is_float t"
  shows "\<exists>s. strength_of L t (PyFloat b) = Inr s"
proof (cases "py_eq (PyFloat b) 0")
  case True
  then show ?thesis by (simp add: strength_of_zero)
next
  case False
  then have b: "b \<noteq> Finite 0" by auto
  from assms obtain a where a: "to_float L t = Inr a"
    by (cases t) (auto simp: to_float_0 simp del: to_float.simps(2))
  have "truediv L t (PyFloat b) = Inr (PyFloat (float_div L a b))"
    using a b by (cases t) simp_all
  then show ?thesis
    using False
    by (simp add: strength_of_def score_percent_def py_mul_float_100 del: py_mul.simps)
qed

lemma strength_of_nonneg_ints:
  assumes "0 \<le> t" and "t \<le> m"
  shows "\<exists>s. strength_of L (PyInt t) (PyInt m) = Inr s"
proof (cases "m = 0")
  case True
  then show ?thesis by (simp add: strength_of_def)
next
  case False
  with assms have m: "0 < m" by simp
  with assms have "\<bar>(of_int t :: rat) / of_int m\<bar> \<le> 1" by simp
  moreover have "(1 :: rat) < overflow_bound"
    using overflow_bound_large by (simp add: order_less_trans [of 1 "2 ^ 1000"])
  ultimately have "\<not> overflow_bound \<le> \<bar>(of_int t :: rat) / of_int m\<bar>" by linarith
  then show ?thesis
    using False
    by (simp add: strength_of_def score_percent_def py_mul_float_100 del: py_mul.simps)
qed

lemma analyze_password_total:
  assumes "float_weights ws \<or> nonneg_int_weights ws"
  shows "\<exists>v. fst (analyze_password L password ws w) = Inr v"
proof (cases "lower L password \<in> BLACKLIST")
  case True
  then show ?thesis by (simp add: analyze_password_def)
next
  case False
  let ?c = "criteria_of L password"
  let ?P = "\<lambda>(criterion, weight :: pynum). ?c criterion"
  have "\<exists>t m s. total_score_of L ws ?c = Inr t \<and> max_score_of L ws = Inr m \<and>
          strength_of L t m = Inr s"
    using assms
  proof
    assume f: "float_weights ws"
    from py_sum_floats [OF float_weights_values [OF f, of ?P], of L]
    obtain t where t: "total_score_of L ws ?c = Inr t" "t = PyInt 0 \<or> is_float t"
      by (auto simp: total_score_of_def)
    from py_sum_floats [OF float_weights_values [OF f, of "\<lambda>x. True"], of L]
    have "max_score_of L ws = Inr (PyInt 0) \<or> (\<exists>z. max_score_of L ws = Inr (PyFloat z))"
      by (simp add: max_score_of_def)
    then show ?thesis
    proof
      assume "max_score_of L ws = Inr (PyInt 0)"
      with t(1) show ?thesis by (simp add: strength_of_def)
    next
      assume "\<exists>z. max_score_of L ws = Inr (PyFloat z)"
      then obtain z where "max_score_of L ws = Inr (PyFloat z)" ..
      with t strength_of_float_divisor [OF t(2), of L z] show ?thesis by auto
    qed
  next
    assume n: "nonneg_int_weights ws"
    from sums_nonneg_ints [OF n, of 0 0 L ?P]
    obtain t m where "total_score_of L ws ?c = Inr (PyInt t)"
        "max_score_of L ws = Inr (PyInt m)" "0 \<le> t" "t \<le> m"
      by (auto simp: total_score_of_def max_score_of_def py_sum_def)
    with strength_of_nonneg_ints [of t m L] show ?thesis by auto
  qed
  then obtain t m s where "total_score_of L ws ?c = Inr t" "max_score_of L ws = Inr m"
      "strength_of L t m = Inr s" by blast
  from analyze_password_returns [OF False this] show ?thesis by blast
qed

lemma unit_weights_float: "float_weights unit_weights"
  by (simp add: float_weights_def unit_weights_def)

lemma zero_weights_float: "float_weights zero_weights"
  by (simp add: float_weights_def zero_weights_def)

section \<open>Classification\<close>

lemma Abcdefg1_accepted: "lower L (str ''Abcdefg1'') \<notin> BLACKLIST"
  by (simp add: char_eval BLACKLIST_def)

lemma Abcdefg1_criteria: "criteria_of L (str ''Abcdefg1'') k = (k \<noteq> Special)"
  by (cases k) (simp_all add: criteria_of_def char_eval)

lemma ABCDEFGH_accepted: "lower L (str ''ABCDEFGH'') \<notin> BLACKLIST"
  by (simp add: char_eval BLACKLIST_def)

lemma ABCDEFGH_criteria: "criteria_of L (str ''ABCDEFGH'') k = (k = Length \<or> k = Uppercase)"
  by (cases k) (simp_all add: criteria_of_def char_eval)

lemma all_classes_accepted: "lower L (str ''Abcdefg1!'') \<notin> BLACKLIST"
  by (simp add: char_eval BLACKLIST_def)

lemma all_classes_criteria: "criteria_of L (str ''Abcdefg1!'') k"
  by (cases k) (simp_all add: criteria_of_def char_eval)

lemma abcdefgh_accepted: "lower L (str ''abcdefgh'') \<notin> BLACKLIST"
  by (simp add: char_eval BLACKLIST_def)

lemma abcdefgh_criteria: "criteria_of L (str ''abcdefgh'') k = (k = Length \<or> k = Lowercase)"
  by (cases k) (simp_all add: criteria_of_def char_eval)

lemma abc_accepted: "lower L (str ''abc'') \<notin> BLACKLIST"
  by (simp add: char_eval BLACKLIST_def)

lemma abc_criteria: "criteria_of L (str ''abc'') k = (k = Lowercase)"
  by (cases k) (simp_all add: criteria_of_def char_eval)



lemma band_cases:
  "(band p = Strong \<longleftrightarrow> py_ge p 80) \<and>
   (band p = Moderate \<longleftrightarrow> py_ge p 40 \<and> py_lt p 80) \<and>
   (band p = Weak \<longleftrightarrow> py_lt p 40 \<or> p = PyFloat NaN)"
proof (cases p)
  case (PyInt i)
  then show ?thesis by (auto simp: band_def)
next
  case (PyFloat x)
  then show ?thesis by (cases x) (auto simp: band_def)
qed

lemma truediv_finite_floats:
  "m \<noteq> 0 \<Longrightarrow> truediv L (Float s) (Float m) = Inr (PyFloat (fl L (s / m)))"
  by simp

lemma huge_sum: "max_score_of exact_lib huge_weights = Inr (PyFloat PosInf)"
  by (simp add: max_score_of_def py_sum_def huge_weights_def to_float_0 fl_def
        overflow_bound_def exact_round del: to_float.simps(2))

lemma huge_total:
  "total_score_of exact_lib huge_weights (criteria_of exact_lib (str ''Abcdefg1!''))
     = Inr (PyFloat PosInf)"
  by (simp add: total_score_of_def all_classes_criteria py_sum_def huge_weights_def
        to_float_0 fl_def overflow_bound_def exact_round del: to_float.simps(2))

lemma percent_of_infinities:
  "score_percent L (PyFloat PosInf) (PyFloat PosInf) = Inr (PyFloat NaN)"
  by (simp add: score_percent_def py_mul_float_100 del: py_mul.simps)

text \<open>
  Claim C3, as the specification states it: whenever the maximal score is positive, the
  label is Weak exactly when the percentage is below 40. With five weights of
  \<open>2 ^ 1023\<close>, finite and not negative, and a password that meets every criterion, both
  sums overflow to infinity, the maximal score is positive, the percentage is NaN and
  the label is Weak, but NaN is not below 40.
\<close>

theorem strength_bands_counterexample:
  "fst (analyze_password exact_lib (str ''Abcdefg1!'') huge_weights fresh_world) =
     Inr (Analysis (criteria_of exact_lib (str ''Abcdefg1!'')) (PyFloat PosInf)
            (PyFloat PosInf) Weak feedback_header) \<and>
   py_gt (PyFloat PosInf) 0 \<and>
   score_percent exact_lib (PyFloat PosInf) (PyFloat PosInf) = Inr (PyFloat NaN) \<and>
   \<not> py_lt (PyFloat NaN) 40"
proof -
  have s: "strength_of exact_lib (PyFloat PosInf) (PyFloat PosInf) = Inr Weak"
    by (simp add: strength_of_def percent_of_infinities band_def)
  have f: "feedback_lines Weak (criteria_of exact_lib (str ''Abcdefg1!'')) = [feedback_header]"
    by (simp add: feedback_lines_not_Strong all_classes_criteria)
  from analyze_password_returns [OF all_classes_accepted huge_total huge_sum s]
  show ?thesis by (simp add: f percent_of_infinities)
qed

text \<open>
  Claim C3, amended. For a password that is not blacklisted, the analyzer returns a
  success verdict when the weights are all floats or all integers that are not negative;
  and whenever it returns a verdict whose maximal score is positive, the percentage is
  the float that the code computes, the quotient of score and maximal score as a float,
  times 100, again as a float (for finite float scores, the rounded exact quotient,
  multiplied and rounded), and the label is Strong exactly when the percentage is at
  least 80, Moderate exactly when it is at least 40 and below 80, and Weak exactly when
  it is below 40 or is NaN. (The instances below have a percentage of exactly 80,
  labelled Strong, and one of exactly 40, labelled Moderate.)
\<close>

theorem strength_bands:
  assumes "lower L password \<notin> BLACKLIST"
  shows "(float_weights ws \<or> nonneg_int_weights ws \<longrightarrow>
           (\<exists>v. fst (analyze_password L password ws w) = Inr v \<and> \<not> error v)) \<and>
         (\<forall>v. fst (analyze_password L password ws w) = Inr v \<and> py_gt (max_score v) 0 \<longrightarrow>
           (\<exists>q pct. truediv L (score v) (max_score v) = Inr q \<and>
              py_mul L q (PyInt 100) = Inr pct \<and>
              (strength v = Strong \<longleftrightarrow> py_ge pct 80) \<and>
              (strength v = Moderate \<longleftrightarrow> py_ge pct 40 \<and> py_lt pct 80) \<and>
              (strength v = Weak \<longleftrightarrow> py_lt pct 40 \<or> pct = PyFloat NaN) \<and>
              (\<forall>s m. score v = Float s \<and> max_score v = Float m \<longrightarrow>
                 pct = PyFloat (float_mul L (fl L (s / m)) (Finite 100)))))"
proof (intro conjI impI allI)
  assume "float_weights ws \<or> nonneg_int_weights ws"
  then obtain v where v: "fst (analyze_password L password ws w) = Inr v"
    using analyze_password_total by blast
  with analyze_password_fields(1) [OF assms v]
  show "\<exists>v. fst (analyze_password L password ws w) = Inr v \<and> \<not> error v" by blast
next
  fix v
  assume a: "fst (analyze_password L password ws w) = Inr v \<and> py_gt (max_score v) 0"
  then have v: "fst (analyze_password L password ws w) = Inr v"
    and g: "py_gt (max_score v) 0" by simp_all
  from g have nz: "\<not> py_eq (max_score v) 0"
  proof (cases "max_score v")
    case (PyInt i)
    with g show ?thesis by simp
  next
    case (PyFloat x)
    with g show ?thesis by (cases x) simp_all
  qed
  from strength_of_percent [OF analyze_password_fields(5) [OF assms v] nz]
  obtain q pct where q: "truediv L (score v) (max_score v) = Inr q"
    and p: "py_mul L q (PyInt 100) = Inr pct" and s: "strength v = band pct" by blast
  have e: "pct = PyFloat (float_mul L (fl L (s' / m)) (Finite 100))"
    if "score v = Float s' \<and> max_score v = Float m" for s' m
  proof -
    from that nz have "m \<noteq> 0" by auto
    with q that have "q = PyFloat (fl L (s' / m))" by simp
    with p show ?thesis by (simp add: py_mul_float_100 del: py_mul.simps)
  qed
  from q p s e band_cases [of pct]
  show "\<exists>q pct. truediv L (score v) (max_score v) = Inr q \<and>
              py_mul L q (PyInt 100) = Inr pct \<and>
              (strength v = Strong \<longleftrightarrow> py_ge pct 80) \<and>
              (strength v = Moderate \<longleftrightarrow> py_ge pct 40 \<and> py_lt pct 80) \<and>
              (strength v = Weak \<longleftrightarrow> py_lt pct 40 \<or> pct = PyFloat NaN) \<and>
              (\<forall>s m. score v = Float s \<and> max_score v = Float m \<longrightarrow>
                 pct = PyFloat (float_mul L (fl L (s / m)) (Finite 100)))"
    by auto
qed

theorem strength_bands_witness:
  "lower exact_lib (str ''Abcdefg1'') \<notin> BLACKLIST \<and>
   lower exact_lib (str ''ABCDEFGH'') \<notin> BLACKLIST \<and>
   float_weights unit_weights \<and>
   (\<exists>v. fst (analyze_password exact_lib (str ''Abcdefg1'') unit_weights fresh_world) = Inr v \<and>
        score v = Float 4 \<and> max_score v = Float 5 \<and> py_gt (max_score v) 0 \<and>
        truediv exact_lib (score v) (max_score v) = Inr (Float (4 / 5)) \<and>
        py_mul exact_lib (Float (4 / 5)) (PyInt 100) = Inr (Float 80) \<and>
        strength v = Strong) \<and>
   (\<exists>v. fst (analyze_password exact_lib (str ''ABCDEFGH'') unit_weights fresh_world) = Inr v \<and>
        score v = Float 2 \<and> max_score v = Float 5 \<and> py_gt (max_score v) 0 \<and>
        truediv exact_lib (score v) (max_score v) = Inr (Float (2 / 5)) \<and>
        py_mul exact_lib (Float (2 / 5)) (PyInt 100) = Inr (Float 40) \<and>
        strength v = Moderate)"
proof -
  have d4: "truediv exact_lib (Float 4) (Float 5) = Inr (Float (4 / 5))"
    and d2: "truediv exact_lib (Float 2) (Float 5) = Inr (Float (2 / 5))"
    and m4: "py_mul exact_lib (Float (4 / 5)) (PyInt 100) = Inr (Float 80)"
    and m2: "py_mul exact_lib (Float (2 / 5)) (PyInt 100) = Inr (Float 40)"
    by (simp_all add: score_eval del: to_float.simps(2))
  note b1 = strength_bands [OF Abcdefg1_accepted, where ws = unit_weights and w = fresh_world]
  from b1 unit_weights_float obtain v
    where v: "fst (analyze_password exact_lib (str ''Abcdefg1'') unit_weights fresh_world) = Inr v"
    by blast
  have "total_score_of exact_lib unit_weights (criteria_of exact_lib (str ''Abcdefg1''))
      = Inr (Float 4)"
    by (simp add: score_eval unit_weights_def Abcdefg1_criteria del: to_float.simps(2))
  with analyze_password_fields(3,4) [OF Abcdefg1_accepted v] unit_weights_max
  have sv: "score v = Float 4" "max_score v = Float 5" by simp_all
  then have gv: "py_gt (max_score v) 0" by simp
  from b1 v gv obtain q pct where q: "truediv exact_lib (score v) (max_score v) = Inr q"
      and p: "py_mul exact_lib q (PyInt 100) = Inr pct"
      and s: "strength v = Strong \<longleftrightarrow> py_ge pct 80"
    by blast
  from q sv d4 have "q = Float (4 / 5)" by (simp del: truediv.simps)
  with p m4 have "pct = Float 80" by (simp del: py_mul.simps)
  with s have "strength v = Strong" by simp
  with v sv gv d4 m4 have a: "\<exists>v.
        fst (analyze_password exact_lib (str ''Abcdefg1'') unit_weights fresh_world) = Inr v \<and>
        score v = Float 4 \<and> max_score v = Float 5 \<and> py_gt (max_score v) 0 \<and>
        truediv exact_lib (score v) (max_score v) = Inr (Float (4 / 5)) \<and>
        py_mul exact_lib (Float (4 / 5)) (PyInt 100) = Inr (Float 80) \<and>
        strength v = Strong"
    by auto
  note b2 = strength_bands [OF ABCDEFGH_accepted, where ws = unit_weights and w = fresh_world]
  from b2 unit_weights_float obtain u
    where u: "fst (analyze_password exact_lib (str ''ABCDEFGH'') unit_weights fresh_world) = Inr u"
    by blast
  have "total_score_of exact_lib unit_weights (criteria_of exact_lib (str ''ABCDEFGH''))
      = Inr (Float 2)"
    by (simp add: score_eval unit_weights_def ABCDEFGH_criteria del: to_float.simps(2))
  with analyze_password_fields(3,4) [OF ABCDEFGH_accepted u] unit_weights_max
  have su: "score u = Float 2" "max_score u = Float 5" by simp_all
  then have gu: "py_gt (max_score u) 0" by simp
  from b2 u gu obtain q' pct' where q': "truediv exact_lib (score u) (max_score u) = Inr q'"
      and p': "py_mul exact_lib q' (PyInt 100) = Inr pct'"
      and s': "strength u = Moderate \<longleftrightarrow> py_ge pct' 40 \<and> py_lt pct' 80"
    by blast
  from q' su d2 have "q' = Float (2 / 5)" by (simp del: truediv.simps)
  with p' m2 have "pct' = Float 40" by (simp del: py_mul.simps)
  with s' have "strength u = Moderate" by simp
  with u su gu d2 m2 have b: "\<exists>v.
        fst (analyze_password exact_lib (str ''ABCDEFGH'') unit_weights fresh_world) = Inr v \<and>
        score v = Float 2 \<and> max_score v = Float 5 \<and> py_gt (max_score v) 0 \<and>
        truediv exact_lib (score v) (max_score v) = Inr (Float (2 / 5)) \<and>
        py_mul exact_lib (Float (2 / 5)) (PyInt 100) = Inr (Float 40) \<and>
        strength v = Moderate"
    by auto
  from a b Abcdefg1_accepted ABCDEFGH_accepted unit_weights_float show ?thesis by blast
qed

lemma py_add_zeros:
  "py_eq a 0 \<Longrightarrow> py_eq x 0 \<Longrightarrow> \<exists>z. py_add L a x = Inr z \<and> py_eq z 0"
proof (cases a; cases x)
  fix i j
  assume "py_eq a 0" "py_eq x 0" "a = PyInt i" "x = PyInt j"
  then show ?thesis by simp
next
  fix i y
  assume "py_eq a 0" "py_eq x 0" "a = PyInt i" "x = PyFloat y"
  then show ?thesis by (cases y) (simp_all add: to_float_0 fl_0 del: to_float.simps(2))
next
  fix y j
  assume "py_eq a 0" "py_eq x 0" "a = PyFloat y" "x = PyInt j"
  then show ?thesis by (cases y) (simp_all add: to_float_0 fl_0 del: to_float.simps(2))
next
  fix y y'
  assume "py_eq a 0" "py_eq x 0" "a = PyFloat y" "x = PyFloat y'"
  then show ?thesis by (cases y; cases y') (simp_all add: fl_0)
qed

lemma sum_from_zeros:
  "list_all (\<lambda>x. py_eq x 0) xs \<Longrightarrow> py_eq a 0 \<Longrightarrow> \<exists>z. sum_from L a xs = Inr z \<and> py_eq z 0"
proof (induction xs arbitrary: a)
  case Nil
  then show ?case by simp
next
  case (Cons x xs)
  from Cons.prems obtain z where z: "py_add L a x = Inr z" "py_eq z 0"
    using py_add_zeros [of a x L] by auto
  from Cons.prems have "list_all (\<lambda>x. py_eq x 0) xs" by simp
  from Cons.IH [OF this z(2)] z(1) show ?case by simp
qed

lemma zero_weights_values:
  "list_all (\<lambda>(criterion, weight). py_eq weight 0) ws \<Longrightarrow>
     list_all (\<lambda>x. py_eq x 0) (map snd (filter P ws))"
  by (induction ws) auto

text \<open>
  Claim C6. For a password that is not blacklisted and weights whose sum is zero, the
  verdict is a success with the label Weak, whatever criteria the password meets: this
  holds whenever the two sums are computed and the second is zero, and in particular
  whenever every weight is zero, the integer or the float. (The instance below has all
  five weights 0.0 and a password that meets all five criteria.)
\<close>

theorem zero_max_score_is_Weak:
  assumes "lower L password \<notin> BLACKLIST"
  shows "(\<forall>t m. total_score_of L ws (criteria_of L password) = Inr t \<and>
             max_score_of L ws = Inr m \<and> py_eq m 0 \<longrightarrow>
           (\<exists>v. fst (analyze_password L password ws w) = Inr v \<and> \<not> error v \<and>
                max_score v = m \<and> strength v = Weak)) \<and>
         (list_all (\<lambda>(criterion, weight). py_eq weight 0) ws \<longrightarrow>
           (\<exists>v. fst (analyze_password L password ws w) = Inr v \<and> \<not> error v \<and>
                py_eq (max_score v) 0 \<and> strength v = Weak))"
proof -
  have 1: "\<exists>v. fst (analyze_password L password ws w) = Inr v \<and> \<not> error v \<and>
      max_score v = m \<and> strength v = Weak"
    if "total_score_of L ws (criteria_of L password) = Inr t"
      and "max_score_of L ws = Inr m" and "py_eq m 0" for t m
    using analyze_password_returns [OF assms that(1,2) strength_of_zero [OF that(3)]]
    by simp
  have 2: "\<exists>v. fst (analyze_password L password ws w) = Inr v \<and> \<not> error v \<and>
      py_eq (max_score v) 0 \<and> strength v = Weak"
    if z: "list_all (\<lambda>(criterion, weight). py_eq weight 0) ws"
  proof -
    from sum_from_zeros [OF zero_weights_values [OF z], where a = "PyInt 0" and L = L]
    obtain t where t: "total_score_of L ws (criteria_of L password) = Inr t"
      by (auto simp: total_score_of_def py_sum_def)
    from sum_from_zeros [OF zero_weights_values [OF z, of "\<lambda>x. True"],
        where a = "PyInt 0" and L = L]
    obtain m where m: "max_score_of L ws = Inr m" "py_eq m 0"
      by (auto simp: max_score_of_def py_sum_def)
    from 1 [OF t m] m(2) show ?thesis by blast
  qed
  from 1 2 show ?thesis by blast
qed

theorem zero_max_score_is_Weak_witness:
  "lower exact_lib (str ''Abcdefg1!'') \<notin> BLACKLIST \<and>
   list_all (\<lambda>(criterion, weight). py_eq weight 0) zero_weights \<and>
   max_score_of exact_lib zero_weights = Inr (Float 0) \<and>
   (\<exists>v. fst (analyze_password exact_lib (str ''Abcdefg1!'') zero_weights fresh_world) = Inr v \<and>
        \<not> error v \<and> max_score v = Float 0 \<and> strength v = Weak \<and>
        criteria v Length \<and> criteria v Uppercase \<and> criteria v Lowercase \<and>
        criteria v Digit \<and> criteria v Special)"
proof -
  have z: "list_all (\<lambda>(criterion, weight). py_eq weight 0) zero_weights"
    by (simp add: zero_weights_def)
  with zero_max_score_is_Weak [OF all_classes_accepted, where ws = zero_weights
      and w = fresh_world]
  obtain v where
    v: "fst (analyze_password exact_lib (str ''Abcdefg1!'') zero_weights fresh_world) = Inr v"
      and w: "\<not> error v" "strength v = Weak"
    by blast
  have m: "max_score v = Float 0"
    using analyze_password_fields(4) [OF all_classes_accepted v] zero_weights_max by simp
  have "criteria v k" for k
    using analyze_password_fields(2) [OF all_classes_accepted v]
    by (simp add: all_classes_criteria)
  with v w m z all_classes_accepted zero_weights_max show ?thesis by blast
qed

section \<open>Feedback\<close>

lemma feedback_header_not_perfect: "feedback_header \<noteq> perfect_message"
  by (simp add: feedback_header_def perfect_message_def)

lemma inj_hint_for: "inj hint_for"
proof (rule injI)
  fix a b
  assume "hint_for a = hint_for b"
  then show "a = b"
    by (cases a; cases b)
      (simp_all add: hint_length_def hint_uppercase_def hint_lowercase_def
         hint_digit_def hint_special_def str_def)
qed

text \<open>
  Claim C4. For a password that is not blacklisted, when the computed label is Strong the
  feedback is the single affirmative message and the list of improvement hints is empty.
  (The instance below reaches Strong with the uppercase, digit and special criteria
  unmet and weighted zero.)
\<close>

theorem strong_gets_affirmative_feedback:
  assumes "lower L password \<notin> BLACKLIST"
    and "fst (analyze_password L password ws w) = Inr v"
    and "strength v = Strong"
  shows "feedback v = perfect_message \<and> feedback_lines (strength v) (criteria v) = []"
  using analyze_password_fields(6) [OF assms(1,2)] assms(3)
  by (simp add: feedback_lines_Strong)

theorem strong_gets_affirmative_feedback_witness:
  "lower exact_lib (str ''abcdefgh'') \<notin> BLACKLIST \<and>
   (\<exists>v. fst (analyze_password exact_lib (str ''abcdefgh'')
          [(Length, Float 1), (Uppercase, Float 0), (Lowercase, Float 1), (Digit, Float 0),
           (Special, Float 0)] fresh_world) = Inr v \<and>
        strength v = Strong \<and>
        \<not> criteria v Uppercase \<and> \<not> criteria v Digit \<and> \<not> criteria v Special \<and>
        feedback v = perfect_message \<and> feedback_lines (strength v) (criteria v) = [])"
proof -
  let ?ws = "[(Length, Float 1), (Uppercase, Float 0), (Lowercase, Float 1),
    (Digit, Float 0), (Special, Float 0)]"
  have t: "total_score_of exact_lib ?ws (criteria_of exact_lib (str ''abcdefgh''))
      = Inr (Float 2)"
    by (simp add: score_eval abcdefgh_criteria del: to_float.simps(2))
  have m: "max_score_of exact_lib ?ws = Inr (Float 2)"
    by (simp add: score_eval del: to_float.simps(2))
  have s: "strength_of exact_lib (Float 2) (Float 2) = Inr Strong"
    by (simp add: strength_of_def score_percent_def score_eval band_def
          del: to_float.simps(2))
  from analyze_password_returns [OF abcdefgh_accepted t m s, of fresh_world]
  obtain v where v: "fst (analyze_password exact_lib (str ''abcdefgh'') ?ws fresh_world) = Inr v"
    and sv: "strength v = Strong" and c: "criteria v = criteria_of exact_lib (str ''abcdefgh'')"
    by simp
  from strong_gets_affirmative_feedback [OF abcdefgh_accepted v sv] v sv c abcdefgh_accepted
  show ?thesis by (auto simp: abcdefgh_criteria)
qed

lemma no_newline_in_texts:
  "count_list feedback_header 10 = 0" "count_list hint_length 10 = 0"
  "count_list hint_uppercase 10 = 0" "count_list hint_lowercase 10 = 0"
  "count_list hint_digit 10 = 0" "count_list hint_special 10 = 0"
  by (simp_all add: feedback_header_def hint_length_def hint_uppercase_def
        hint_lowercase_def hint_digit_def hint_special_def str_def)

lemma count_list_append: "count_list (xs @ ys) a = count_list xs a + count_list ys a"
  by (induction xs) simp_all

text \<open>
  Claim C7. For a password that is not blacklisted, when the computed label is not
  Strong the feedback lines are the header followed by one hint for each failed
  criterion and none for a satisfied one, in the order length, uppercase, lowercase,
  digit, special. The returned feedback is the header followed, for each failed
  criterion in that order, by a newline and the hint of that criterion; it has as many
  newlines as there are failed criteria, and the five hints are different texts.
\<close>

theorem one_hint_per_failed_criterion:
  assumes "lower L password \<notin> BLACKLIST"
    and "fst (analyze_password L password ws w) = Inr v"
    and "strength v \<noteq> Strong"
  shows "feedback_lines (strength v) (criteria v) =
           feedback_header #
             map hint_for
               (filter (\<lambda>k. \<not> criteria v k) [Length, Uppercase, Lowercase, Digit, Special]) \<and>
         feedback v =
           feedback_header
           @ (if criteria v Length then [] else 10 # hint_length)
           @ (if criteria v Uppercase then [] else 10 # hint_uppercase)
           @ (if criteria v Lowercase then [] else 10 # hint_lowercase)
           @ (if criteria v Digit then [] else 10 # hint_digit)
           @ (if criteria v Special then [] else 10 # hint_special) \<and>
         count_list (feedback v) 10 =
           length (filter (\<lambda>k. \<not> criteria v k) [Length, Uppercase, Lowercase, Digit, Special]) \<and>
         inj hint_for"
proof -
  have l: "feedback_lines (strength v) (criteria v) =
      feedback_header #
        map hint_for
          (filter (\<lambda>k. \<not> criteria v k) [Length, Uppercase, Lowercase, Digit, Special])"
    using feedback_lines_not_Strong [OF assms(3)] by (simp add: criteria_keys_def)
  then have "feedback_lines (strength v) (criteria v) \<noteq> []" by simp
  with analyze_password_fields(6) [OF assms(1,2)]
  have "feedback v = join [10] (feedback_lines (strength v) (criteria v))" by simp
  then have f: "feedback v =
           feedback_header
           @ (if criteria v Length then [] else 10 # hint_length)
           @ (if criteria v Uppercase then [] else 10 # hint_uppercase)
           @ (if criteria v Lowercase then [] else 10 # hint_lowercase)
           @ (if criteria v Digit then [] else 10 # hint_digit)
           @ (if criteria v Special then [] else 10 # hint_special)"
    unfolding l join_lines by simp
  have "count_list (feedback v) 10 =
      length (filter (\<lambda>k. \<not> criteria v k) [Length, Uppercase, Lowercase, Digit, Special])"
    unfolding f by (simp add: count_list_append no_newline_in_texts)
  with l f inj_hint_for show ?thesis by blast
qed

theorem one_hint_per_failed_criterion_witness:
  "lower exact_lib (str ''abc'') \<notin> BLACKLIST \<and>
   (\<exists>v. fst (analyze_password exact_lib (str ''abc'') unit_weights fresh_world) = Inr v \<and>
        strength v \<noteq> Strong \<and>
        feedback_lines (strength v) (criteria v) =
          [feedback_header, hint_length, hint_uppercase, hint_digit, hint_special] \<and>
        feedback v =
          (0x1F4A1 # str '' Strengthen your password by adding:'') @ [10] @
          (0x2705 # str '' More characters (minimum 8)'') @ [10] @
          (0x2705 # str '' Uppercase letters'') @ [10] @
          (0x2705 # str '' Numbers'') @ [10] @
          (0x2705 # str '' Special characters'') \<and>
        count_list (feedback v) 10 = 4)"
proof -
  have t: "total_score_of exact_lib unit_weights (criteria_of exact_lib (str ''abc''))
      = Inr (Float 1)"
    by (simp add: score_eval unit_weights_def abc_criteria del: to_float.simps(2))
  have s: "strength_of exact_lib (Float 1) (Float 5) = Inr Weak"
    by (simp add: strength_of_def score_percent_def score_eval band_def
          del: to_float.simps(2))
  from analyze_password_returns [OF abc_accepted t unit_weights_max s, of fresh_world]
  obtain v where v: "fst (analyze_password exact_lib (str ''abc'') unit_weights fresh_world) = Inr v"
    and sv: "strength v = Weak" and c: "criteria v = criteria_of exact_lib (str ''abc'')"
    by simp
  from sv have n: "strength v \<noteq> Strong" by simp
  note h = one_hint_per_failed_criterion [OF abc_accepted v n]
  have 1: "feedback_lines (strength v) (criteria v) =
          [feedback_header, hint_length, hint_uppercase, hint_digit, hint_special]"
    using h by (simp add: c abc_criteria)
  have 2: "feedback v =
          (0x1F4A1 # str '' Strengthen your password by adding:'') @ [10] @
          (0x2705 # str '' More characters (minimum 8)'') @ [10] @
          (0x2705 # str '' Uppercase letters'') @ [10] @
          (0x2705 # str '' Numbers'') @ [10] @
          (0x2705 # str '' Special characters'')"
    using h
    by (simp add: c abc_criteria feedback_header_def hint_length_def hint_uppercase_def
          hint_digit_def hint_special_def)
  have 3: "count_list (feedback v) 10 = 4"
    using h [THEN conjunct2, THEN conjunct2, THEN conjunct1] by (simp add: c abc_criteria)
  from v n abc_accepted 1 2 3 show ?thesis by blast
qed

text \<open>
  Claim C10. For a password that is not blacklisted, when the computed label is not
  Strong the feedback is not empty and begins with the header, which is the first of the
  feedback lines. In particular, when the weights sum to zero and the password meets all
  five criteria, the label is Weak and the feedback is the header alone, neither empty
  nor the affirmative message.
\<close>

theorem feedback_begins_with_header:
  assumes "lower L password \<notin> BLACKLIST"
    and "fst (analyze_password L password ws w) = Inr v"
    and "strength v \<noteq> Strong"
  shows "feedback v \<noteq> [] \<and> prefix feedback_header (feedback v) \<and>
         (\<exists>hints. feedback_lines (strength v) (criteria v) = feedback_header # hints \<and>
                  feedback v = join [10] (feedback_header # hints)) \<and>
         (py_eq (max_score v) 0 \<and> (\<forall>k. criteria v k) \<longrightarrow>
            strength v = Weak \<and> feedback_lines (strength v) (criteria v) = [feedback_header] \<and>
            feedback v = feedback_header \<and> feedback v \<noteq> perfect_message)"
proof -
  note f = analyze_password_fields [OF assms(1,2)]
  define hints where
    "hints = map hint_for (filter (\<lambda>k. \<not> criteria v k) criteria_keys)"
  have l: "feedback_lines (strength v) (criteria v) = feedback_header # hints"
    using feedback_lines_not_Strong [OF assms(3)] by (simp add: hints_def)
  with f(6) have j: "feedback v = join [10] (feedback_header # hints)" by simp
  have h: "feedback_header \<noteq> []" by (simp add: feedback_header_def)
  have 1: "feedback v \<noteq> []" using j join_nonempty [OF h] by simp
  have 2: "prefix feedback_header (feedback v)" using j prefix_join by simp
  have 3: "strength v = Weak \<and> feedback_lines (strength v) (criteria v) = [feedback_header] \<and>
      feedback v = feedback_header \<and> feedback v \<noteq> perfect_message"
    if "py_eq (max_score v) 0" and "\<forall>k. criteria v k"
  proof -
    from that(2) have "hints = []" by (simp add: hints_def)
    moreover from f(5) that(1) have "strength v = Weak"
      by (simp add: strength_of_zero)
    ultimately show ?thesis using l j feedback_header_not_perfect by simp
  qed
  from 1 2 3 l j show ?thesis by blast
qed

theorem feedback_begins_with_header_witness:
  "lower exact_lib (str ''Abcdefg1!'') \<notin> BLACKLIST \<and>
   (\<exists>v. fst (analyze_password exact_lib (str ''Abcdefg1!'') zero_weights fresh_world) = Inr v \<and>
        strength v \<noteq> Strong \<and> py_eq (max_score v) 0 \<and> (\<forall>k. criteria v k) \<and>
        feedback v = feedback_header \<and> feedback v \<noteq> [] \<and> feedback v \<noteq> perfect_message)"
proof -
  have "float_weights zero_weights \<or> nonneg_int_weights zero_weights"
    using zero_weights_float by simp
  then obtain v where
    v: "fst (analyze_password exact_lib (str ''Abcdefg1!'') zero_weights fresh_world) = Inr v"
    using analyze_password_total by blast
  note f = analyze_password_fields [OF all_classes_accepted v]
  have c: "\<forall>k. criteria v k"
    using f(2) by (simp add: all_classes_criteria)
  from f(4) zero_weights_max have "max_score v = Float 0" by simp
  then have m: "py_eq (max_score v) 0" by simp
  with f(5) have s: "strength v \<noteq> Strong" by (simp add: strength_of_zero)
  from feedback_begins_with_header [OF all_classes_accepted v s] v s c m all_classes_accepted
  show ?thesis by blast
qed

section \<open>Errors and determinism\<close>





text \<open>
  Claim C9. The analyzer is a function of the password and the weights alone. Called
  with the same password and the same weights in two states of the program, whatever
  the session lists and the state of the random generator in each, it returns the same
  verdict (or raises the same error), and it leaves each state as it found it. (The
  instance below calls it in a fresh session and in one with an analysis and a generated
  password behind it and another random state.)
\<close>

theorem analyze_password_deterministic:
  "password1 = password2 \<Longrightarrow> ws1 = ws2 \<Longrightarrow>
     fst (analyze_password L password1 ws1 w1) = fst (analyze_password L password2 ws2 w2) \<and>
     snd (analyze_password L password1 ws1 w1) = w1 \<and>
     snd (analyze_password L password2 ws2 w2) = w2"
  by (simp add: analyze_password_def Let_def split: sum.splits)

theorem analyze_password_deterministic_witness:
  "str ''abc'' = [97, 98, 99] \<and>
   unit_weights =
     [(Length, Float 1), (Uppercase, Float 1), (Lowercase, Float 1), (Digit, Float 1),
      (Special, Float 1)] \<and>
   password_analysis fresh_world \<noteq> password_analysis used_world \<and>
   generated_passwords fresh_world \<noteq> generated_passwords used_world \<and>
   random_state fresh_world \<noteq> random_state used_world \<and>
   fst (analyze_password exact_lib (str ''abc'') unit_weights fresh_world) =
     fst (analyze_password exact_lib [97, 98, 99]
       [(Length, Float 1), (Uppercase, Float 1), (Lowercase, Float 1), (Digit, Float 1),
        (Special, Float 1)] used_world) \<and>
   snd (analyze_password exact_lib (str ''abc'') unit_weights fresh_world) = fresh_world \<and>
   snd (analyze_password exact_lib [97, 98, 99]
       [(Length, Float 1), (Uppercase, Float 1), (Lowercase, Float 1), (Digit, Float 1),
        (Special, Float 1)] used_world) = used_world"
proof -
  have p: "str ''abc'' = [97, 98, 99]" by (simp add: str_def)
  have u: "unit_weights =
     [(Length, Float 1), (Uppercase, Float 1), (Lowercase, Float 1), (Digit, Float 1),
      (Special, Float 1)]"
    by (simp add: unit_weights_def)
  have "shd (random_state fresh_world) \<noteq> shd (random_state used_world)"
    by (simp add: fresh_world_def used_world_def)
  then have r: "random_state fresh_world \<noteq> random_state used_world" by metis
  have d: "password_analysis fresh_world \<noteq> password_analysis used_world"
      "generated_passwords fresh_world \<noteq> generated_passwords used_world"
    by (simp_all add: fresh_world_def used_world_def)
  from analyze_password_deterministic [OF p u, of exact_lib fresh_world used_world] p u r d
  show ?thesis by blast
qed

section \<open>The generator's guarantee\<close>






text \<open>Evaluation of the generator on a given stream of draws.\<close>

lemma shuffle_loop_numeral:
  "shuffle_loop (numeral k) x g =
     (case randbelow (numeral k + 1) g of
        (j, g') \<Rightarrow>
          shuffle_loop (pred_numeral k) (x[numeral k := x ! j, j := x ! numeral k]) g')"
  by (simp add: numeral_eq_Suc)

lemma choices_numeral:
  "choices population (numeral k) g =
     (case choice population g of
        Inl e \<Rightarrow> Inl e
      | Inr (c, g1) \<Rightarrow>
          (case choices population (pred_numeral k) g1 of
             Inl e \<Rightarrow> Inl e
           | Inr (cs, g2) \<Rightarrow> Inr (c # cs, g2)))"
  by (simp add: numeral_eq_Suc)

lemma list_update_Cons_numeral: "(x # xs)[numeral k := v] = x # xs[pred_numeral k := v]"
  by (simp add: numeral_eq_Suc)

lemma pools_eval:
  "ascii_uppercase = [65..<91]" "ascii_lowercase = [97..<123]" "digits = [48..<58]"
  by (simp_all add: ascii_uppercase_def ascii_lowercase_def digits_def str_def upt_rec)

lemma choice_eval:
  "seq \<noteq> [] \<Longrightarrow> choice seq g = Inr (seq ! (shd g mod length seq), stl g)"
  by (simp add: choice_def randbelow_def)

lemma generate_example:
  "generate_strong_password 3 (siterate (\<lambda>r. r + 7) 3) =
     Inr (str ''F7MTDk0]'', siterate (\<lambda>r. r + 7) 108)"
  by (simp add: generate_strong_password_def ascii_letters_def pools_eval punctuation_def
        choice_eval nth_append choices_numeral shuffle_def randbelow_def shuffle_loop_numeral
        list_update_Cons_numeral str_def Let_def numeral_2_eq_2 [symmetric])



text \<open>
  The generator, unlike the analyzer, depends on the state it is called in: on two
  states of the random generator the same request gives two different passwords, and it
  leaves another state behind.
\<close>

lemma generate_example_zeros:
  "generate_strong_password 3 (sconst 0) = Inr (str ''a0!aaaaA'', sconst 0)"
  by (simp add: generate_strong_password_def ascii_letters_def pools_eval punctuation_def
        choice_eval nth_append choices_numeral shuffle_def randbelow_def shuffle_loop_numeral
        list_update_Cons_numeral str_def Let_def numeral_2_eq_2 [symmetric])

lemma generator_depends_on_random_state:
  "map_sum id fst (generate_strong_password 3 (sconst 0)) \<noteq>
   map_sum id fst (generate_strong_password 3 (siterate (\<lambda>r. r + 7) 3))"
  by (simp add: generate_example generate_example_zeros str_def)

end
